theory Spec2Isabelle
  imports Complex_Main
begin

section \<open>JavaScript values\<close>

text \<open>
  The two proxy handlers and the two views of the energy-consumption front end, as
  functions over explicit data.

  A JavaScript number is a \<open>number\<close>: a finite value, taken as the rational it denotes
  (every finite double is one), NaN or one of the two infinities. Arithmetic on finite
  values is exact here: rounding, overflow and the sign of zero are left out. A division
  whose divisor may be zero goes through \<open>js_div\<close>. The data of the two views (a
  prediction result, a dataset row) are taken at the types the program declares for
  them, a number there being a finite one, a \<open>rat\<close>.
\<close>

datatype number = Finite rat | NaN | Infinity | Minus_Infinity

fun negate :: "number \<Rightarrow> number" where
  "negate (Finite a) = Finite (- a)"
| "negate NaN = NaN"
| "negate Infinity = Minus_Infinity"
| "negate Minus_Infinity = Infinity"

fun js_add :: "number \<Rightarrow> number \<Rightarrow> number" where
  "js_add (Finite a) (Finite b) = Finite (a + b)"
| "js_add NaN y = NaN"
| "js_add x NaN = NaN"
| "js_add Infinity Minus_Infinity = NaN"
| "js_add Minus_Infinity Infinity = NaN"
| "js_add (Finite a) y = y"
| "js_add x y = x"

definition js_sub :: "number \<Rightarrow> number \<Rightarrow> number" where
  "js_sub x y = js_add x (negate y)"

fun js_mul :: "number \<Rightarrow> number \<Rightarrow> number" where
  "js_mul (Finite a) (Finite b) = Finite (a * b)"
| "js_mul NaN y = NaN"
| "js_mul x NaN = NaN"
| "js_mul (Finite a) y = (if a = 0 then NaN else if 0 < a then y else negate y)"
| "js_mul x (Finite b) = (if b = 0 then NaN else if 0 < b then x else negate x)"
| "js_mul Infinity y = y"
| "js_mul Minus_Infinity y = negate y"

text \<open>\<open>0 / 0\<close> is NaN and any other finite number over zero is an infinity.\<close>

fun js_div :: "number \<Rightarrow> number \<Rightarrow> number" where
  "js_div (Finite a) (Finite b) =
     (if b = 0 then (if a = 0 then NaN else if 0 < a then Infinity else Minus_Infinity)
      else Finite (a / b))"
| "js_div NaN y = NaN"
| "js_div x NaN = NaN"
| "js_div (Finite a) y = Finite 0"
| "js_div x (Finite b) = (if 0 \<le> b then x else negate x)"
| "js_div x y = NaN"

text \<open>
  A value as \<open>JSON.parse\<close> builds it (\<open>request.json()\<close>, \<open>response.json()\<close>). A number
  too large for a double, such as \<open>1e400\<close>, is read as an infinity. \<open>undefined\<close> is
  \<open>None\<close> of \<open>json option\<close>.
\<close>

datatype json =
    JNull
  | JBool bool
  | JNum number
  | JStr string
  | JArr "json list"
  | JObj "(string \<times> json) list"

type_synonym js_value = "json option"

datatype js_error = TypeError | SyntaxError | Error string

text \<open>
  \<open>!v\<close> is \<open>\<not> truthy v\<close>: undefined, null, false, 0, NaN and the empty string are falsy.
\<close>

fun truthy :: "js_value \<Rightarrow> bool" where
  "truthy None = False"
| "truthy (Some JNull) = False"
| "truthy (Some (JBool b)) = b"
| "truthy (Some (JNum n)) = (n \<noteq> Finite 0 \<and> n \<noteq> NaN)"
| "truthy (Some (JStr s)) = (s \<noteq> [])"
| "truthy (Some (JArr xs)) = True"
| "truthy (Some (JObj fs)) = True"

text \<open>
  Reading a named property of a value that is not null. The list of a \<open>JObj\<close> is the
  parsed object's own properties (each name once; were one listed twice, the first entry
  counts). Any other value gives undefined for the names this program reads (none is
  \<open>length\<close> or an index).
\<close>

fun own_property :: "json \<Rightarrow> string \<Rightarrow> js_value" where
  "own_property (JObj fs) k = map_of fs k"
| "own_property v k = None"

text \<open>\<open>a || b\<close> on an optional string: null and the empty string give \<open>b\<close>.\<close>

definition or_string :: "string option \<Rightarrow> string \<Rightarrow> string" where
  "or_string a b = (case a of None \<Rightarrow> b | Some s \<Rightarrow> if s = [] then b else s)"

text \<open>\<open>a ?? b\<close>: undefined and null give \<open>b\<close>.\<close>

definition nullish_or :: "js_value \<Rightarrow> json \<Rightarrow> json" where
  "nullish_or a b = (case a of None \<Rightarrow> b | Some v \<Rightarrow> if v = JNull then b else v)"

text \<open>\<open>a?.k\<close>: undefined when \<open>a\<close> is undefined or null.\<close>

definition optional_property :: "js_value \<Rightarrow> string \<Rightarrow> js_value" where
  "optional_property a k =
     (case a of None \<Rightarrow> None | Some v \<Rightarrow> if v = JNull then None else own_property v k)"

text \<open>
  What \<open>JSON.stringify\<close> writes for a value, as the reader of the text gets it back:
  NaN and the infinities are written \<open>null\<close>, at any depth; everything else is kept.
\<close>

fun to_JSON :: "json \<Rightarrow> json" where
  "to_JSON (JNum (Finite q)) = JNum (Finite q)"
| "to_JSON (JNum n) = JNull"
| "to_JSON (JArr xs) = JArr (map to_JSON xs)"
| "to_JSON (JObj fs) = JObj (map (\<lambda>(k, v). (k, to_JSON v)) fs)"
| "to_JSON v = v"

text \<open>A value all of whose numbers are finite.\<close>

fun finite_numbers :: "json \<Rightarrow> bool" where
  "finite_numbers (JNum (Finite q)) = True"
| "finite_numbers (JNum n) = False"
| "finite_numbers (JArr xs) = list_all finite_numbers xs"
| "finite_numbers (JObj fs) = list_all (\<lambda>(k, v). finite_numbers v) fs"
| "finite_numbers v = True"

text \<open>
  \<open>JSON.stringify\<close> of an object literal: a property whose value is undefined is dropped,
  the others are written in the literal's order.
\<close>

definition JSON_stringify :: "(string \<times> js_value) list \<Rightarrow> json" where
  "JSON_stringify kvs =
     JObj (concat (map (\<lambda>(k, v). case v of None \<Rightarrow> [] | Some j \<Rightarrow> [(k, to_JSON j)]) kvs))"

text \<open>Numbers written into a text.\<close>

definition digit_char :: "nat \<Rightarrow> char" where
  "digit_char d = ''0123456789'' ! d"

text \<open>The decimal digits of a natural number, most significant first.\<close>

fun digits :: "nat \<Rightarrow> string" where
  "digits n = (if n < 10 then [digit_char n] else digits (n div 10) @ [digit_char (n mod 10)])"

declare digits.simps [simp del]

text \<open>A template literal \<open>${n}\<close> on an integer.\<close>

definition show_int :: "int \<Rightarrow> string" where
  "show_int i = (if i < 0 then ''-'' @ digits (nat (- i)) else digits (nat i))"

section \<open>The outbound call and the handler's reply\<close>

record fetch_call =
  fetch_url :: string
  fetch_method :: string
  fetch_body :: "json option"

text \<open>
  What \<open>fetch\<close> gives back: the promise rejects (no connection), or a response with a
  status and a body; the body is what \<open>response.json()\<close> reads from it, \<open>None\<close> when
  that rejects.
\<close>

datatype fetch_result = Rejected | Response nat "json option"

definition ok :: "nat \<Rightarrow> bool" where
  "ok st = (200 \<le> st \<and> st \<le> 299)"

text \<open>A reply of the handler: its status and the value its JSON text carries.\<close>

record http_response =
  status_code :: nat
  json_body :: json

text \<open>\<open>NextResponse.json(v)\<close> and \<open>NextResponse.json(v, { status })\<close>.\<close>

definition NextResponse_json :: "json \<Rightarrow> nat \<Rightarrow> http_response" where
  "NextResponse_json v st = \<lparr>status_code = st, json_body = to_JSON v\<rparr>"

section \<open>Proxy handler for the dataset listing (GET)\<close>

definition dataset_failed :: http_response where
  "dataset_failed =
     NextResponse_json (JObj [(''error'', JStr ''Failed to fetch dataset from backend'')]) 500"

definition DATASET_ENDPOINT :: "string option \<Rightarrow> (string \<times> string) list \<Rightarrow> string" where
  "DATASET_ENDPOINT env searchParams =
     (let page = or_string (map_of searchParams ''page'') ''1'';
          limit = or_string (map_of searchParams ''limit'') ''50'';
          BACKEND_URL = or_string env ''http://127.0.0.1:8000''
      in BACKEND_URL @ ''/dataset?page='' @ page @ ''&limit='' @ limit)"

text \<open>
  \<open>GET env fetch searchParams\<close>: \<open>env\<close> is NEXT_PUBLIC_BACKEND_URL, \<open>searchParams\<close> the
  query of the request (\<open>get\<close> returns the first value of a name). \<open>GET_try\<close> is the
  body of the handler's \<open>try\<close>: what it throws or returns, and the calls made to the
  backend. A rejected \<open>fetch\<close> throws a TypeError; the second \<open>console.log\<close> reads
  \<open>data.data?.[0]\<close>, which throws on a null body. The \<open>catch\<close> answers 500.
\<close>

definition GET_try ::
  "string option \<Rightarrow> (fetch_call \<Rightarrow> fetch_result) \<Rightarrow> (string \<times> string) list
     \<Rightarrow> (js_error + http_response) \<times> fetch_call list" where
  "GET_try env fetch searchParams =
     (let call = \<lparr>fetch_url = DATASET_ENDPOINT env searchParams, fetch_method = ''GET'',
                   fetch_body = None\<rparr>
      in case fetch call of
           Rejected \<Rightarrow> (Inl TypeError, [call])
         | Response st b \<Rightarrow>
             if \<not> ok st then (Inl (Error (''Backend returned status '' @ digits st)), [call])
             else (case b of
                     None \<Rightarrow> (Inl SyntaxError, [call])
                   | Some data \<Rightarrow>
                       if data = JNull then (Inl TypeError, [call])
                       else (Inr (NextResponse_json data 200), [call])))"

definition GET ::
  "string option \<Rightarrow> (fetch_call \<Rightarrow> fetch_result) \<Rightarrow> (string \<times> string) list
     \<Rightarrow> http_response \<times> fetch_call list" where
  "GET env fetch searchParams =
     (case GET_try env fetch searchParams of
        (Inl thrown, calls) \<Rightarrow> (dataset_failed, calls)
      | (Inr reply, calls) \<Rightarrow> (reply, calls))"

section \<open>Proxy handler for the prediction (POST)\<close>

definition missing_required_fields :: http_response where
  "missing_required_fields =
     NextResponse_json (JObj [(''error'', JStr ''Missing required fields'')]) 400"

definition prediction_failed :: http_response where
  "prediction_failed =
     NextResponse_json (JObj [(''error'', JStr ''Failed to get prediction from backend'')]) 500"

text \<open>
  \<open>const { building_type, square_footage, number_of_occupants, appliances_used } = body\<close>:
  destructuring null throws a TypeError; any other value gives the four properties.
\<close>

definition destructure ::
  "json \<Rightarrow> js_error + (js_value \<times> js_value \<times> js_value \<times> js_value)" where
  "destructure body =
     (if body = JNull then Inl TypeError
      else Inr (own_property body ''building_type'', own_property body ''square_footage'',
                own_property body ''number_of_occupants'', own_property body ''appliances_used''))"

definition PREDICT_ENDPOINT :: "string option \<Rightarrow> string" where
  "PREDICT_ENDPOINT env = or_string env ''http://localhost:5000'' @ ''/predict''"

text \<open>
  The object the handler builds from the backend's reply. The reply is declared a
  \<open>BackendPredictionResponse\<close>, which nothing checks when the program runs: it is
  whatever \<open>response.json()\<close> read. Reading \<open>data.energy_consumption\<close> throws when the
  reply is null; \<open>data.factors?.f\<close> is guarded.
\<close>

definition normalizedResponse :: "json \<Rightarrow> js_error + json" where
  "normalizedResponse data =
     (if data = JNull then Inl TypeError
      else
        (let factors = own_property data ''factors'' in
         Inr (JObj
           [(''energy_consumption'',
               nullish_or (own_property data ''energy_consumption'') (JNum (Finite 0))),
            (''unit'', nullish_or (own_property data ''unit'') (JStr ''kWh'')),
            (''factors'',
               JObj [(''building_type'',
                        nullish_or (optional_property factors ''building_type'')
                          (JNum (Finite 0))),
                     (''square_footage'',
                        nullish_or (optional_property factors ''square_footage'')
                          (JNum (Finite 0))),
                     (''number_of_occupants'',
                        nullish_or (optional_property factors ''number_of_occupants'')
                          (JNum (Finite 0))),
                     (''appliances_used'',
                        nullish_or (optional_property factors ''appliances_used'')
                          (JNum (Finite 0)))])])))"

text \<open>
  \<open>POST env fetch request_json\<close>: \<open>request_json\<close> is what \<open>request.json()\<close> yields
  (\<open>None\<close> when the body is not JSON and the call rejects). \<open>POST_try\<close> is the body of
  the handler's \<open>try\<close>; every exception lands in the one \<open>catch\<close>, which answers 500.
\<close>

definition POST_try ::
  "string option \<Rightarrow> (fetch_call \<Rightarrow> fetch_result) \<Rightarrow> json option
     \<Rightarrow> (js_error + http_response) \<times> fetch_call list" where
  "POST_try env fetch request_json =
     (case request_json of
        None \<Rightarrow> (Inl SyntaxError, [])
      | Some body \<Rightarrow>
          (case destructure body of
             Inl thrown \<Rightarrow> (Inl thrown, [])
           | Inr props \<Rightarrow>
               let (building_type, square_footage, number_of_occupants, appliances_used) =
                     props
               in
               if \<not> truthy building_type \<or> square_footage = None
                  \<or> number_of_occupants = None \<or> appliances_used = None
               then (Inr missing_required_fields, [])
               else
                 (let call = \<lparr>fetch_url = PREDICT_ENDPOINT env, fetch_method = ''POST'',
                               fetch_body = Some (JSON_stringify
                                 [(''building_type'', building_type),
                                  (''square_footage'', square_footage),
                                  (''number_of_occupants'', number_of_occupants),
                                  (''appliances_used'', appliances_used)])\<rparr>
                  in case fetch call of
                       Rejected \<Rightarrow> (Inl TypeError, [call])
                     | Response st b \<Rightarrow>
                         if \<not> ok st
                         then (Inl (Error (''Backend returned status '' @ digits st)), [call])
                         else (case b of
                                 None \<Rightarrow> (Inl SyntaxError, [call])
                               | Some data \<Rightarrow>
                                   (case normalizedResponse data of
                                      Inl thrown \<Rightarrow> (Inl thrown, [call])
                                    | Inr normalized \<Rightarrow>
                                        (Inr (NextResponse_json normalized 200), [call]))))))"

definition POST ::
  "string option \<Rightarrow> (fetch_call \<Rightarrow> fetch_result) \<Rightarrow> json option
     \<Rightarrow> http_response \<times> fetch_call list" where
  "POST env fetch request_json =
     (case POST_try env fetch request_json of
        (Inl thrown, calls) \<Rightarrow> (prediction_failed, calls)
      | (Inr reply, calls) \<Rightarrow> (reply, calls))"

text \<open>A backend that cannot be reached, and one that answers every call alike.\<close>

definition unreachable :: "fetch_call \<Rightarrow> fetch_result" where
  "unreachable call = Rejected"

definition answering :: "nat \<Rightarrow> json \<Rightarrow> fetch_call \<Rightarrow> fetch_result" where
  "answering st data call = Response st (Some data)"

section \<open>Numbers as text\<close>

text \<open>
  \<open>Number.prototype.toFixed\<close> as ECMAScript defines it for a finite number: the sign is
  split off, and from \<open>10^21\<close> on the text is that of \<open>Number::toString\<close> (exponent
  notation such as \<open>1e+21\<close>), which is not spelled out here. Below that bound \<open>n\<close> is
  the integer nearest to \<open>x * 10^f\<close>, the larger one of two, written in decimal,
  padded with zeros to \<open>f + 1\<close> digits and split \<open>f\<close> digits from the right.
\<close>

datatype number_text = Fixed string | Number_toString rat

definition toFixed :: "rat \<Rightarrow> nat \<Rightarrow> number_text" where
  "toFixed x0 f =
     (let s = (if x0 < 0 then ''-'' else []);
          x = (if x0 < 0 then - x0 else x0)
      in if 10 ^ 21 \<le> x then Number_toString x0
         else
           (let n = nat \<lfloor>x * 10 ^ f + 1 / 2\<rfloor>;
                m = (if n = 0 then ''0'' else digits n);
                k = length m;
                m = (if f \<noteq> 0 \<and> k \<le> f then replicate (f + 1 - k) (CHR ''0'') @ m else m);
                k = (if f \<noteq> 0 \<and> k \<le> f then f + 1 else k);
                m = (if f \<noteq> 0 then take (k - f) m @ ''.'' @ drop (k - f) m else m)
            in Fixed (s @ m)))"

text \<open>
  Reading a text of the shape \<open>-ddd.dd\<close> (sign optional, exactly two digits after the
  point) back as a number; \<open>None\<close> for any other text. This is what "a value shown with
  two decimal places" means in the statements below; the program has no such function.
\<close>

definition is_digit :: "char \<Rightarrow> bool" where
  "is_digit c = (48 \<le> (of_char c :: nat) \<and> (of_char c :: nat) \<le> 57)"

definition digit_value :: "char \<Rightarrow> nat" where
  "digit_value c = of_char c - 48"

definition digits_value :: "string \<Rightarrow> nat" where
  "digits_value t = foldl (\<lambda>a c. 10 * a + digit_value c) 0 t"

definition unsigned_two_decimal_value :: "string \<Rightarrow> rat option" where
  "unsigned_two_decimal_value t =
     (let k = length t in
      if 4 \<le> k \<and> t ! (k - 3) = CHR ''.'' \<and> list_all is_digit (take (k - 3) t)
         \<and> list_all is_digit (drop (k - 2) t)
      then Some (of_nat (digits_value (take (k - 3) t))
                 + of_nat (digits_value (drop (k - 2) t)) / 100)
      else None)"

definition two_decimal_value :: "string \<Rightarrow> rat option" where
  "two_decimal_value t =
     (case t of
        [] \<Rightarrow> None
      | c # r \<Rightarrow> if c = CHR ''-'' then map_option uminus (unsigned_two_decimal_value r)
                 else unsigned_two_decimal_value t)"

text \<open>
  "A valid integer string", in the words of the dataset proxy's contract: an optional
  minus sign and at least one digit.
\<close>

definition is_integer_string :: "string \<Rightarrow> bool" where
  "is_integer_string t =
     (case t of
        [] \<Rightarrow> False
      | c # r \<Rightarrow> if c = CHR ''-'' then r \<noteq> [] \<and> list_all is_digit r
                 else list_all is_digit t)"

section \<open>Predictor view\<close>

record Factors =
  building_type :: "rat option"
  square_footage :: "rat option"
  number_of_occupants :: "rat option"
  appliances_used :: "rat option"

record PredictionResult =
  energy_consumption :: rat
  unit :: "string option"
  factors :: "Factors option"

record Home_state =
  result :: "PredictionResult option"
  loading :: bool
  error :: "string option"

text \<open>
  The figure both result panels show:
  \<open>(result.energy_consumption/4).toFixed(2)\<close> followed by \<open>result.unit || 'kWh'\<close>.
\<close>

definition monthly :: "PredictionResult \<Rightarrow> number_text \<times> string" where
  "monthly r =
     (toFixed (PredictionResult.energy_consumption r / 4) 2,
      or_string (PredictionResult.unit r) ''kWh'')"

record Home_view =
  error_message :: "string option"
  result_box :: "(number_text \<times> string) option"
  result_card :: "(number_text \<times> string) option"
  placeholder :: bool

definition Home :: "Home_state \<Rightarrow> Home_view" where
  "Home s =
     \<lparr>error_message = (case Home_state.error s of None \<Rightarrow> None
                        | Some e \<Rightarrow> if e = [] then None else Some e),
      result_box = map_option monthly (result s),
      result_card = map_option monthly (result s),
      placeholder = (result s = None \<and> \<not> Home_state.loading s)\<rparr>"

section \<open>Dataset view\<close>

record DataRow =
  building_type :: string
  square_footage :: rat
  number_of_occupants :: rat
  appliances_used :: rat
  energy_consumption :: rat

datatype Metric = Energy_consumption | Square_footage | Number_of_occupants | Appliances_used

text \<open>\<open>row[selectedMetric]\<close>\<close>

fun metric_value :: "DataRow \<Rightarrow> Metric \<Rightarrow> rat" where
  "metric_value row Energy_consumption = DataRow.energy_consumption row"
| "metric_value row Square_footage = DataRow.square_footage row"
| "metric_value row Number_of_occupants = DataRow.number_of_occupants row"
| "metric_value row Appliances_used = DataRow.appliances_used row"

record DatasetPage_state =
  dataset :: "DataRow list"
  loading :: bool
  error :: "string option"
  page :: int
  totalPages :: int
  limit :: int
  selectedMetric :: Metric
  filterType :: string

definition getFilteredData :: "DatasetPage_state \<Rightarrow> DataRow list" where
  "getFilteredData s =
     (if filterType s = ''all'' then dataset s
      else filter (\<lambda>row. DataRow.building_type row = filterType s) (dataset s))"

text \<open>\<open>a || b\<close> on numbers: 0 gives \<open>b\<close>.\<close>

definition or_number :: "rat \<Rightarrow> rat \<Rightarrow> rat" where
  "or_number a b = (if a = 0 then b else a)"

record padding =
  top :: rat
  right :: rat
  bottom :: rat
  left :: rat

record point =
  point_x :: number
  point_y :: number
  point_value :: rat
  point_buildingType :: string

record chart =
  count :: nat
  gridlines :: "(rat \<times> rat) list"
  points :: "point list"

text \<open>
  The geometry of \<open>LineGraph\<close>: \<open>None\<close> is the \<open>null\<close> it returns when no row is left.
  The metric values are listed before that test here, so that \<open>Math.max(...values)\<close>
  and \<open>Math.min(...values)\<close> are folds over a list known to have a first element.
  A grid line is its height and the value written beside it. The two divisions of a
  point's coordinates are JavaScript's; the grid lines divide by the literal 4.
\<close>

definition LineGraph :: "DatasetPage_state \<Rightarrow> chart option" where
  "LineGraph s =
     (let filteredData = getFilteredData s in
      case map (\<lambda>row. metric_value row (selectedMetric s)) filteredData of
        [] \<Rightarrow> None
      | v # vs \<Rightarrow>
          (let width = 1000;
               height = 500;
               padding = \<lparr>top = 40, right = 60, bottom = 60, left = 80\<rparr>;
               chartWidth = width - left padding - right padding;
               chartHeight = height - top padding - bottom padding;
               maxValue = fold max vs v;
               minValue = fold min vs v;
               range = or_number (maxValue - minValue) 1
           in Some
                \<lparr>count = length filteredData,
                 gridlines =
                   map (\<lambda>i. (top padding + (chartHeight / 4) * of_nat i,
                             maxValue - (range / 4) * of_nat i)) [0, 1, 2, 3, 4],
                 points =
                   map (\<lambda>(i, row).
                          \<lparr>point_x =
                             js_add (Finite (left padding))
                               (js_mul
                                  (js_div (Finite (of_nat i))
                                     (Finite (or_number (of_nat (length filteredData) - 1) 1)))
                                  (Finite chartWidth)),
                           point_y =
                             js_sub (Finite (top padding + chartHeight))
                               (js_mul
                                  (js_div
                                     (Finite (metric_value row (selectedMetric s) - minValue))
                                     (Finite range))
                                  (Finite chartHeight)),
                           point_value = metric_value row (selectedMetric s),
                           point_buildingType = DataRow.building_type row\<rparr>)
                       (enumerate 0 filteredData)\<rparr>))"

text \<open>
  The series the chart is drawn from: the selected metric over the filtered rows (the
  \<open>values\<close> of LineGraph).
\<close>

definition metric_values :: "DatasetPage_state \<Rightarrow> rat list" where
  "metric_values s = map (\<lambda>row. metric_value row (selectedMetric s)) (getFilteredData s)"

text \<open>What the page puts in the graph area.\<close>

datatype graph_area = Loading_dataset | No_data_available | Graph "chart option"

definition graph :: "DatasetPage_state \<Rightarrow> graph_area" where
  "graph s =
     (if DatasetPage_state.loading s then Loading_dataset
      else if length (dataset s) = 0 then No_data_available
      else Graph (LineGraph s))"

text \<open>
  The page's state changes. A control's handler runs to its end before the page renders
  again, so the two updates of the limit control arrive together. \<open>Limit_changed n\<close>
  carries \<open>Number(e.target.value)\<close>; the two paging buttons are disabled at the ends.
  The last two are the outcomes of \<open>fetchDataset\<close>.
\<close>

datatype event =
    Metric_changed Metric
  | Filter_changed string
  | Limit_changed int
  | Previous_clicked
  | Next_clicked
  | Fetch_succeeded "DataRow list" int
  | Fetch_failed string

fun handle :: "event \<Rightarrow> DatasetPage_state \<Rightarrow> DatasetPage_state" where
  "handle (Metric_changed m) s = s\<lparr>selectedMetric := m\<rparr>"
| "handle (Filter_changed t) s = s\<lparr>filterType := t\<rparr>"
| "handle (Limit_changed n) s = (s\<lparr>limit := n\<rparr>)\<lparr>page := 1\<rparr>"
| "handle Previous_clicked s =
     (if page s = 1 then s else s\<lparr>page := max 1 (page s - 1)\<rparr>)"
| "handle Next_clicked s =
     (if page s = totalPages s then s else s\<lparr>page := min (totalPages s) (page s + 1)\<rparr>)"
| "handle (Fetch_succeeded rows n) s =
     s\<lparr>dataset := rows, totalPages := n, DatasetPage_state.loading := False\<rparr>"
| "handle (Fetch_failed msg) s =
     s\<lparr>DatasetPage_state.error := Some msg, DatasetPage_state.loading := False\<rparr>"

text \<open>The request \<open>fetchDataset\<close> sends, from the page and limit of the current render.\<close>

definition fetchDataset_url :: "DatasetPage_state \<Rightarrow> string" where
  "fetchDataset_url s =
     ''/api/dataset?page='' @ show_int (page s) @ ''&limit='' @ show_int (limit s)"

text \<open>
  \<open>useEffect(..., [page, limit])\<close>: after a render whose page or limit differs from the
  previous render's, \<open>fetchDataset\<close> starts: it sets the loading flag, clears the error
  and sends its request. The result is the state and the requests sent.
\<close>

definition useEffect ::
  "DatasetPage_state \<Rightarrow> DatasetPage_state \<Rightarrow> DatasetPage_state \<times> string list" where
  "useEffect prev s =
     (if page s \<noteq> page prev \<or> limit s \<noteq> limit prev
      then (s\<lparr>DatasetPage_state.loading := True, DatasetPage_state.error := None\<rparr>,
            [fetchDataset_url s])
      else (s, []))"

definition dispatch :: "event \<Rightarrow> DatasetPage_state \<Rightarrow> DatasetPage_state \<times> string list" where
  "dispatch ev s = useEffect s (handle ev s)"

section \<open>Properties of the values\<close>

lemma to_JSON_finite: "finite_numbers v \<Longrightarrow> to_JSON v = v"
proof (induction v rule: to_JSON.induct)
  case (3 xs)
  then show ?case by (auto simp add: list_all_iff intro!: map_idI)
next
  case (4 fs)
  then show ?case by (auto simp add: list_all_iff intro!: map_idI)
qed auto

lemma finite_numbers_property:
  assumes "finite_numbers v" and "own_property v k = Some w"
  shows "finite_numbers w"
proof (cases v)
  case (JObj fs)
  with assms(2) have "(k, w) \<in> set fs" by (auto dest: map_of_SomeD)
  with assms(1) JObj show ?thesis by (auto simp add: list_all_iff)
qed (use assms(2) in auto)

lemma nullish_or_absent: "a = None \<or> a = Some JNull \<Longrightarrow> nullish_or a d = d"
  by (auto simp add: nullish_or_def)

lemma nullish_or_present: "a = Some v \<Longrightarrow> v \<noteq> JNull \<Longrightarrow> nullish_or a d = v"
  by (simp add: nullish_or_def)

text \<open>A field that was filled in from a reply with finite numbers only is not null.\<close>

lemma filled_field_not_null:
  assumes "a = None \<or> (\<exists>v. a = Some v \<and> finite_numbers v)"
  shows "to_JSON (nullish_or a (JNum (Finite 0))) \<noteq> JNull"
    and "to_JSON (nullish_or a (JStr ''kWh'')) \<noteq> JNull"
proof -
  have "to_JSON (nullish_or a d) \<noteq> JNull" if d: "to_JSON d = d" "d \<noteq> JNull" for d
  proof (cases "a = None \<or> a = Some JNull")
    case True
    then show ?thesis using d by (simp add: nullish_or_absent)
  next
    case False
    with assms obtain v where v: "a = Some v" "finite_numbers v" "v \<noteq> JNull" by auto
    then show ?thesis by (simp add: nullish_or_present to_JSON_finite)
  qed
  then show "to_JSON (nullish_or a (JNum (Finite 0))) \<noteq> JNull"
    and "to_JSON (nullish_or a (JStr ''kWh'')) \<noteq> JNull" by simp_all
qed

section \<open>Properties of the prediction proxy\<close>

text \<open>
  A body passes the validation when \<open>building_type\<close> is truthy and the other three
  fields are not undefined. Then the backend is called once, with these four fields.
\<close>

lemma POST_validated:
  assumes "own_property body ''building_type'' = Some bt" and "truthy (Some bt)"
    and "own_property body ''square_footage'' = Some sf"
    and "own_property body ''number_of_occupants'' = Some no"
    and "own_property body ''appliances_used'' = Some au"
  shows "snd (POST env fetch (Some body)) =
           [\<lparr>fetch_url = PREDICT_ENDPOINT env, fetch_method = ''POST'',
             fetch_body = Some (JObj [(''building_type'', to_JSON bt),
                                      (''square_footage'', to_JSON sf),
                                      (''number_of_occupants'', to_JSON no),
                                      (''appliances_used'', to_JSON au)])\<rparr>]"
proof -
  from assms(1) have "body \<noteq> JNull" by auto
  then show ?thesis using assms
    by (simp add: POST_def POST_try_def destructure_def JSON_stringify_def Let_def
             split: fetch_result.split option.split sum.split)
qed

lemma POST_validated_status:
  assumes "own_property body ''building_type'' = Some bt" and "truthy (Some bt)"
    and "own_property body ''square_footage'' = Some sf"
    and "own_property body ''number_of_occupants'' = Some no"
    and "own_property body ''appliances_used'' = Some au"
  shows "status_code (fst (POST env fetch (Some body))) \<noteq> 400"
proof -
  from assms(1) have "body \<noteq> JNull" by auto
  then show ?thesis using assms
    by (simp add: POST_def POST_try_def destructure_def Let_def prediction_failed_def
             NextResponse_json_def
             split: fetch_result.split option.split sum.split)
qed

lemma POST_validated_reply:
  assumes "own_property body ''building_type'' = Some bt" and "truthy (Some bt)"
    and "own_property body ''square_footage'' = Some sf"
    and "own_property body ''number_of_occupants'' = Some no"
    and "own_property body ''appliances_used'' = Some au"
    and "fetch \<lparr>fetch_url = PREDICT_ENDPOINT env, fetch_method = ''POST'',
             fetch_body = Some (JObj [(''building_type'', to_JSON bt),
                                      (''square_footage'', to_JSON sf),
                                      (''number_of_occupants'', to_JSON no),
                                      (''appliances_used'', to_JSON au)])\<rparr> =
           Response st (Some data)"
    and "ok st"
  shows "fst (POST env fetch (Some body)) =
           (case normalizedResponse data of
              Inl thrown \<Rightarrow> prediction_failed
            | Inr normalized \<Rightarrow> NextResponse_json normalized 200)"
proof -
  from assms(1) have "body \<noteq> JNull" by auto
  then show ?thesis using assms
    by (simp add: POST_def POST_try_def destructure_def JSON_stringify_def Let_def
          split: sum.split)
qed

text \<open>Conversely, the backend is called for a validated body only.\<close>

lemma POST_called:
  assumes "snd (POST env fetch req) \<noteq> []"
  shows "\<exists>body bt sf no au. req = Some body
           \<and> own_property body ''building_type'' = Some bt \<and> truthy (Some bt)
           \<and> own_property body ''square_footage'' = Some sf
           \<and> own_property body ''number_of_occupants'' = Some no
           \<and> own_property body ''appliances_used'' = Some au"
proof (cases req)
  case None
  with assms show ?thesis by (simp add: POST_def POST_try_def)
next
  case (Some body)
  show ?thesis
  proof (cases "body = JNull")
    case True
    with assms Some show ?thesis by (simp add: POST_def POST_try_def destructure_def)
  next
    case False
    have t: "truthy (own_property body ''building_type'')"
      and s: "own_property body ''square_footage'' \<noteq> None"
      and n: "own_property body ''number_of_occupants'' \<noteq> None"
      and a: "own_property body ''appliances_used'' \<noteq> None"
      using assms Some False
      by (auto simp add: POST_def POST_try_def destructure_def split: if_splits)
    from t obtain bt where "own_property body ''building_type'' = Some bt"
      by (cases "own_property body ''building_type''") auto
    with t s n a Some show ?thesis by auto
  qed
qed

lemma POST_reply:
  assumes "snd (POST env fetch req) = [call]"
    and "fetch call = Response st (Some data)" and "ok st"
  shows "fst (POST env fetch req) =
           (case normalizedResponse data of
              Inl thrown \<Rightarrow> prediction_failed
            | Inr normalized \<Rightarrow> NextResponse_json normalized 200)"
proof -
  from assms(1) have "snd (POST env fetch req) \<noteq> []" by simp
  from POST_called [OF this] obtain body bt sf no au where
    r: "req = Some body"
    and b: "own_property body ''building_type'' = Some bt" "truthy (Some bt)"
      "own_property body ''square_footage'' = Some sf"
      "own_property body ''number_of_occupants'' = Some no"
      "own_property body ''appliances_used'' = Some au"
    by blast
  have "snd (POST env fetch (Some body)) =
           [\<lparr>fetch_url = PREDICT_ENDPOINT env, fetch_method = ''POST'',
             fetch_body = Some (JObj [(''building_type'', to_JSON bt),
                                      (''square_footage'', to_JSON sf),
                                      (''number_of_occupants'', to_JSON no),
                                      (''appliances_used'', to_JSON au)])\<rparr>]"
    by (rule POST_validated [OF b])
  with assms(1) r have "call = \<lparr>fetch_url = PREDICT_ENDPOINT env, fetch_method = ''POST'',
             fetch_body = Some (JObj [(''building_type'', to_JSON bt),
                                      (''square_footage'', to_JSON sf),
                                      (''number_of_occupants'', to_JSON no),
                                      (''appliances_used'', to_JSON au)])\<rparr>" by simp
  with assms(2) have f: "fetch \<lparr>fetch_url = PREDICT_ENDPOINT env, fetch_method = ''POST'',
             fetch_body = Some (JObj [(''building_type'', to_JSON bt),
                                      (''square_footage'', to_JSON sf),
                                      (''number_of_occupants'', to_JSON no),
                                      (''appliances_used'', to_JSON au)])\<rparr> =
           Response st (Some data)"
    by simp
  from b f assms(3) have "fst (POST env fetch (Some body)) =
           (case normalizedResponse data of
              Inl thrown \<Rightarrow> prediction_failed
            | Inr normalized \<Rightarrow> NextResponse_json normalized 200)"
    by (rule POST_validated_reply)
  with r show ?thesis by simp
qed

text \<open>
  Every body other than the bare value null in which one of the four fields is absent
  is answered 400 without a call to the backend: an object, and also a number, a string
  or an array, none of which has the fields.
\<close>

lemma POST_missing_field_is_400:
  assumes "body \<noteq> JNull"
    and "own_property body ''building_type'' = None
         \<or> own_property body ''square_footage'' = None
         \<or> own_property body ''number_of_occupants'' = None
         \<or> own_property body ''appliances_used'' = None"
  shows "POST env fetch (Some body) =
           (\<lparr>status_code = 400,
             json_body = JObj [(''error'', JStr ''Missing required fields'')]\<rparr>, [])"
  using assms
  by (auto simp add: POST_def POST_try_def destructure_def missing_required_fields_def
        NextResponse_json_def)

lemma POST_other_bodies_are_400:
  "POST env fetch (Some (JNum (Finite 7))) = (missing_required_fields, [])"
  "POST env fetch (Some (JStr ''abc'')) = (missing_required_fields, [])"
  "POST env fetch (Some (JArr [JNum (Finite 1), JNum (Finite 2)])) =
     (missing_required_fields, [])"
  "POST env fetch (Some (JObj [(''building_type'', JStr ''Residential''),
                               (''square_footage'', JNum (Finite 250)),
                               (''appliances_used'', JNum (Finite 20))])) =
     (missing_required_fields, [])"
  by (simp_all add: POST_def POST_try_def destructure_def)

text \<open>
  C2: a request body in which a required field is absent is to be answered 400 "Missing
  required fields" without a call to the backend. The handler misses one such body: for
  the JSON body \<open>null\<close>, which has none of the four fields, the destructuring that
  precedes the check throws, and the reply is the 500 of the catch, "Failed to get
  prediction from backend", although the backend was not called.
\<close>

theorem POST_null_body_is_500:
  "own_property JNull ''building_type'' = None
   \<and> POST None unreachable (Some JNull) =
       (\<lparr>status_code = 500,
         json_body = JObj [(''error'', JStr ''Failed to get prediction from backend'')]\<rparr>,
        [])
   \<and> fst (POST None unreachable (Some JNull)) \<noteq> missing_required_fields"
  by (simp add: POST_def POST_try_def destructure_def prediction_failed_def
        missing_required_fields_def NextResponse_json_def)

text \<open>
  C6, as stated, fails for a validated body that holds the number JSON writes as 1e400:
  it is read as Infinity, passes the check against undefined, and is sent on as null,
  not with the incoming value.
\<close>

theorem POST_forwards_infinity_as_null:
  "snd (POST None unreachable
     (Some (JObj [(''building_type'', JStr ''Residential''),
                  (''square_footage'', JNum Infinity),
                  (''number_of_occupants'', JNum (Finite 4)),
                  (''appliances_used'', JNum (Finite 20))]))) =
     [\<lparr>fetch_url = ''http://localhost:5000/predict'', fetch_method = ''POST'',
       fetch_body = Some (JObj [(''building_type'', JStr ''Residential''),
                                (''square_footage'', JNull),
                                (''number_of_occupants'', JNum (Finite 4)),
                                (''appliances_used'', JNum (Finite 20))])\<rparr>]"
  by (simp add: POST_def POST_try_def destructure_def JSON_stringify_def unreachable_def
        PREDICT_ENDPOINT_def or_string_def)

text \<open>
  C6, amended: for every request body that passes the validation, the body sent to the
  backend's POST /predict holds exactly the four fields building_type, square_footage,
  number_of_occupants and appliances_used, each with the incoming value as
  JSON.stringify writes it: the value itself when all its numbers are finite, and with
  null in the place of a number that is not. Any other field of the incoming body is
  not in it.
\<close>

theorem POST_forwards_exactly_four_fields:
  assumes "own_property body ''building_type'' = Some bt" and "truthy (Some bt)"
    and "own_property body ''square_footage'' = Some sf"
    and "own_property body ''number_of_occupants'' = Some no"
    and "own_property body ''appliances_used'' = Some au"
  shows "\<exists>sent. snd (POST env fetch (Some body)) =
                  [\<lparr>fetch_url = PREDICT_ENDPOINT env, fetch_method = ''POST'',
                    fetch_body = Some sent\<rparr>]
           \<and> sent = JObj [(''building_type'', to_JSON bt), (''square_footage'', to_JSON sf),
                           (''number_of_occupants'', to_JSON no),
                           (''appliances_used'', to_JSON au)]
           \<and> (\<forall>k. own_property sent k =
                 (if k \<in> {''building_type'', ''square_footage'', ''number_of_occupants'',
                           ''appliances_used''}
                  then map_option to_JSON (own_property body k) else None))
           \<and> (finite_numbers bt \<longrightarrow> to_JSON bt = bt)
           \<and> (finite_numbers sf \<longrightarrow> to_JSON sf = sf)
           \<and> (finite_numbers no \<longrightarrow> to_JSON no = no)
           \<and> (finite_numbers au \<longrightarrow> to_JSON au = au)
           \<and> (finite_numbers body \<longrightarrow>
                sent = JObj [(''building_type'', bt), (''square_footage'', sf),
                             (''number_of_occupants'', no), (''appliances_used'', au)])"
proof -
  have f: "finite_numbers bt \<and> finite_numbers sf \<and> finite_numbers no \<and> finite_numbers au"
    if "finite_numbers body"
    using that assms by (auto intro: finite_numbers_property)
  show ?thesis
    using POST_validated [OF assms, of env fetch] assms f
    by (auto simp add: to_JSON_finite)
qed

theorem POST_forwards_exactly_four_fields_witness:
  "let body = JObj [(''note'', JStr ''x''), (''building_type'', JStr ''Residential''),
                    (''square_footage'', JNum (Finite 250)),
                    (''number_of_occupants'', JArr [JNum (Finite 4), JNum Minus_Infinity]),
                    (''appliances_used'', JNum (Finite 20)), (''id'', JNum (Finite 7))]
   in own_property body ''building_type'' = Some (JStr ''Residential'')
      \<and> truthy (Some (JStr ''Residential''))
      \<and> own_property body ''square_footage'' = Some (JNum (Finite 250))
      \<and> own_property body ''number_of_occupants'' =
          Some (JArr [JNum (Finite 4), JNum Minus_Infinity])
      \<and> own_property body ''appliances_used'' = Some (JNum (Finite 20))
      \<and> snd (POST None unreachable (Some body)) =
          [\<lparr>fetch_url = ''http://localhost:5000/predict'', fetch_method = ''POST'',
            fetch_body = Some (JObj [(''building_type'', JStr ''Residential''),
                                     (''square_footage'', JNum (Finite 250)),
                                     (''number_of_occupants'', JArr [JNum (Finite 4), JNull]),
                                     (''appliances_used'', JNum (Finite 20))])\<rparr>]"
  (is "Let ?body _")
  using POST_forwards_exactly_four_fields
    [of ?body "JStr ''Residential''" "JNum (Finite 250)"
        "JArr [JNum (Finite 4), JNum Minus_Infinity]" "JNum (Finite 20)" None unreachable]
  by (simp add: Let_def PREDICT_ENDPOINT_def or_string_def)

text \<open>
  C9: a body whose square_footage is present but null passes the validation (only
  building_type is tested for falsiness, the numeric fields only against undefined):
  the reply is not the 400 "Missing required fields", and the null is sent on to the
  backend.
\<close>

theorem POST_forwards_null_square_footage:
  assumes "own_property body ''building_type'' = Some bt" and "truthy (Some bt)"
    and "own_property body ''square_footage'' = Some JNull"
    and "own_property body ''number_of_occupants'' = Some no"
    and "own_property body ''appliances_used'' = Some au"
  shows "status_code (fst (POST env fetch (Some body))) \<noteq> 400
         \<and> snd (POST env fetch (Some body)) =
             [\<lparr>fetch_url = PREDICT_ENDPOINT env, fetch_method = ''POST'',
               fetch_body = Some (JObj [(''building_type'', to_JSON bt),
                                        (''square_footage'', JNull),
                                        (''number_of_occupants'', to_JSON no),
                                        (''appliances_used'', to_JSON au)])\<rparr>]"
  using POST_validated [OF assms] POST_validated_status [OF assms] by simp

theorem POST_forwards_null_square_footage_witness:
  "let body = JObj [(''building_type'', JStr ''Residential''), (''square_footage'', JNull),
                    (''number_of_occupants'', JNum (Finite 4)),
                    (''appliances_used'', JNum (Finite 20))]
   in own_property body ''building_type'' = Some (JStr ''Residential'')
      \<and> truthy (Some (JStr ''Residential''))
      \<and> own_property body ''square_footage'' = Some JNull
      \<and> own_property body ''number_of_occupants'' = Some (JNum (Finite 4))
      \<and> own_property body ''appliances_used'' = Some (JNum (Finite 20))
      \<and> POST None unreachable (Some body) =
          (\<lparr>status_code = 500,
            json_body = JObj [(''error'', JStr ''Failed to get prediction from backend'')]\<rparr>,
           [\<lparr>fetch_url = ''http://localhost:5000/predict'', fetch_method = ''POST'',
             fetch_body = Some (JObj [(''building_type'', JStr ''Residential''),
                                      (''square_footage'', JNull),
                                      (''number_of_occupants'', JNum (Finite 4)),
                                      (''appliances_used'', JNum (Finite 20))])\<rparr>])"
  (is "Let ?body _")
  using POST_forwards_null_square_footage
    [of ?body "JStr ''Residential''" "JNum (Finite 4)" "JNum (Finite 20)" None unreachable]
  by (simp add: Let_def PREDICT_ENDPOINT_def or_string_def POST_def POST_try_def
        destructure_def unreachable_def prediction_failed_def JSON_stringify_def
        NextResponse_json_def)

lemma finite_factor:
  assumes "finite_numbers data"
  shows "optional_property (own_property data ''factors'') k = None
         \<or> (\<exists>v. optional_property (own_property data ''factors'') k = Some v
                \<and> finite_numbers v)"
proof (cases "own_property data ''factors''")
  case None
  then show ?thesis by (simp add: optional_property_def)
next
  case (Some f)
  with assms have f: "finite_numbers f" by (rule finite_numbers_property)
  show ?thesis
  proof (cases "optional_property (Some f) k")
    case None
    with Some show ?thesis by simp
  next
    case (Some v)
    then have "own_property f k = Some v"
      by (simp add: optional_property_def split: if_splits)
    with f have "finite_numbers v" by (rule finite_numbers_property)
    with Some \<open>own_property data ''factors'' = Some f\<close> show ?thesis by simp
  qed
qed

lemma finite_field:
  assumes "finite_numbers data"
  shows "own_property data k = None
         \<or> (\<exists>v. own_property data k = Some v \<and> finite_numbers v)"
  using assms by (cases "own_property data k") (auto intro: finite_numbers_property)

text \<open>A 2xx reply whose body is the bare value null makes the handler throw.\<close>

lemma POST_null_reply_is_500:
  assumes "snd (POST env fetch req) = [call]"
    and "fetch call = Response st (Some JNull)" and "ok st"
  shows "fst (POST env fetch req) = prediction_failed"
  using POST_reply [OF assms] by (simp add: normalizedResponse_def)

text \<open>
  C4, as stated, fails for a 2xx reply that holds the number JSON writes as 1e400: it
  is read as Infinity, which \<open>??\<close> keeps, and the body the proxy returns carries
  energy_consumption null.
\<close>

theorem POST_returns_infinity_as_null:
  "fst (POST None
     (answering 200 (JObj [(''energy_consumption'', JNum Infinity), (''unit'', JStr ''kWh'')]))
     (Some (JObj [(''building_type'', JStr ''Residential''),
                  (''square_footage'', JNum (Finite 250)),
                  (''number_of_occupants'', JNum (Finite 4)),
                  (''appliances_used'', JNum (Finite 20))]))) =
     \<lparr>status_code = 200,
      json_body = JObj [(''energy_consumption'', JNull), (''unit'', JStr ''kWh''),
                        (''factors'',
                         JObj [(''building_type'', JNum (Finite 0)),
                               (''square_footage'', JNum (Finite 0)),
                               (''number_of_occupants'', JNum (Finite 0)),
                               (''appliances_used'', JNum (Finite 0))])]\<rparr>"
  by (simp add: POST_def POST_try_def destructure_def answering_def ok_def
        normalizedResponse_def nullish_or_def optional_property_def NextResponse_json_def)

text \<open>
  C4, amended: for every successful (2xx) backend prediction response whose body is a
  JSON value other than null, the proxy answers 200 with a body that holds
  energy_consumption, unit and the four factors fields: energy_consumption is 0 when
  omitted or null, unit is 'kWh' when omitted or null, and each factors field is 0 when
  factors or the field itself is omitted or null, so a response without factors gives
  factors of four zeros. A value the backend did send is returned as JSON.stringify
  writes it, a number that is not finite as null; when all numbers of the response are
  finite, every field is populated.
\<close>

theorem POST_normalizes_backend_response:
  assumes "snd (POST env fetch req) = [call]"
    and "fetch call = Response st (Some data)"
    and "200 \<le> st" and "st \<le> 299"
    and "data \<noteq> JNull"
  shows "\<exists>ec u f1 f2 f3 f4.
           fst (POST env fetch req) =
             \<lparr>status_code = 200,
              json_body = JObj [(''energy_consumption'', ec), (''unit'', u),
                                (''factors'',
                                 JObj [(''building_type'', f1), (''square_footage'', f2),
                                       (''number_of_occupants'', f3),
                                       (''appliances_used'', f4)])]\<rparr>
           \<and> (own_property data ''energy_consumption'' = None
                \<or> own_property data ''energy_consumption'' = Some JNull
                \<longrightarrow> ec = JNum (Finite 0))
           \<and> (\<forall>v. own_property data ''energy_consumption'' = Some v \<and> v \<noteq> JNull
                \<longrightarrow> ec = to_JSON v)
           \<and> (own_property data ''unit'' = None \<or> own_property data ''unit'' = Some JNull
                \<longrightarrow> u = JStr ''kWh'')
           \<and> (\<forall>v. own_property data ''unit'' = Some v \<and> v \<noteq> JNull \<longrightarrow> u = to_JSON v)
           \<and> (own_property data ''factors'' = None
                \<or> own_property data ''factors'' = Some JNull
                \<longrightarrow> f1 = JNum (Finite 0) \<and> f2 = JNum (Finite 0) \<and> f3 = JNum (Finite 0)
                    \<and> f4 = JNum (Finite 0))
           \<and> (\<forall>f. own_property data ''factors'' = Some f \<and> f \<noteq> JNull \<longrightarrow>
                 (own_property f ''building_type'' = None
                    \<or> own_property f ''building_type'' = Some JNull
                    \<longrightarrow> f1 = JNum (Finite 0))
               \<and> (\<forall>v. own_property f ''building_type'' = Some v \<and> v \<noteq> JNull
                    \<longrightarrow> f1 = to_JSON v)
               \<and> (own_property f ''square_footage'' = None
                    \<or> own_property f ''square_footage'' = Some JNull
                    \<longrightarrow> f2 = JNum (Finite 0))
               \<and> (\<forall>v. own_property f ''square_footage'' = Some v \<and> v \<noteq> JNull
                    \<longrightarrow> f2 = to_JSON v)
               \<and> (own_property f ''number_of_occupants'' = None
                    \<or> own_property f ''number_of_occupants'' = Some JNull
                    \<longrightarrow> f3 = JNum (Finite 0))
               \<and> (\<forall>v. own_property f ''number_of_occupants'' = Some v \<and> v \<noteq> JNull
                    \<longrightarrow> f3 = to_JSON v)
               \<and> (own_property f ''appliances_used'' = None
                    \<or> own_property f ''appliances_used'' = Some JNull
                    \<longrightarrow> f4 = JNum (Finite 0))
               \<and> (\<forall>v. own_property f ''appliances_used'' = Some v \<and> v \<noteq> JNull
                    \<longrightarrow> f4 = to_JSON v))
           \<and> (finite_numbers data \<longrightarrow>
                ec \<noteq> JNull \<and> u \<noteq> JNull \<and> f1 \<noteq> JNull \<and> f2 \<noteq> JNull \<and> f3 \<noteq> JNull
                \<and> f4 \<noteq> JNull)"
proof -
  let ?fs = "own_property data ''factors''"
  let ?ec = "to_JSON (nullish_or (own_property data ''energy_consumption'') (JNum (Finite 0)))"
  let ?u = "to_JSON (nullish_or (own_property data ''unit'') (JStr ''kWh''))"
  let ?f = "\<lambda>k. to_JSON (nullish_or (optional_property ?fs k) (JNum (Finite 0)))"
  from assms(3,4) have "ok st" by (simp add: ok_def)
  from POST_reply [OF assms(1,2) this] assms(5)
  have reply: "fst (POST env fetch req) =
      \<lparr>status_code = 200,
       json_body = JObj [(''energy_consumption'', ?ec), (''unit'', ?u),
                         (''factors'',
                          JObj [(''building_type'', ?f ''building_type''),
                                (''square_footage'', ?f ''square_footage''),
                                (''number_of_occupants'', ?f ''number_of_occupants''),
                                (''appliances_used'', ?f ''appliances_used'')])]\<rparr>"
    by (simp add: normalizedResponse_def NextResponse_json_def Let_def)
  have field: "(a = None \<or> a = Some JNull \<longrightarrow> to_JSON (nullish_or a d) = d)
       \<and> (\<forall>v. a = Some v \<and> v \<noteq> JNull \<longrightarrow> to_JSON (nullish_or a d) = to_JSON v)"
    if "to_JSON d = d" for a d
    using that by (auto simp add: nullish_or_def)
  have absent: "?f k = JNum (Finite 0)" if "?fs = None \<or> ?fs = Some JNull" for k
    using that by (auto simp add: optional_property_def nullish_or_def)
  have present: "(own_property f k = None \<or> own_property f k = Some JNull
                   \<longrightarrow> ?f k = JNum (Finite 0))
       \<and> (\<forall>v. own_property f k = Some v \<and> v \<noteq> JNull \<longrightarrow> ?f k = to_JSON v)"
    if "?fs = Some f" and "f \<noteq> JNull" for f k
    using that by (auto simp add: optional_property_def nullish_or_def)
  have filled: "?ec \<noteq> JNull \<and> ?u \<noteq> JNull \<and> ?f ''building_type'' \<noteq> JNull
       \<and> ?f ''square_footage'' \<noteq> JNull \<and> ?f ''number_of_occupants'' \<noteq> JNull
       \<and> ?f ''appliances_used'' \<noteq> JNull"
    if "finite_numbers data"
    using filled_field_not_null [OF finite_field [OF that]]
      filled_field_not_null(1) [OF finite_factor [OF that]]
    by blast
  show ?thesis
  proof (intro exI conjI)
    show "fst (POST env fetch req) =
      \<lparr>status_code = 200,
       json_body = JObj [(''energy_consumption'', ?ec), (''unit'', ?u),
                         (''factors'',
                          JObj [(''building_type'', ?f ''building_type''),
                                (''square_footage'', ?f ''square_footage''),
                                (''number_of_occupants'', ?f ''number_of_occupants''),
                                (''appliances_used'', ?f ''appliances_used'')])]\<rparr>"
      by (rule reply)
  qed (use field [of "JNum (Finite 0)"] field [of "JStr ''kWh''"] absent present filled
       in \<open>simp_all\<close>)
qed

theorem POST_normalizes_backend_response_witness:
  "let body = JObj [(''building_type'', JStr ''Residential''),
                    (''square_footage'', JNum (Finite 250)),
                    (''number_of_occupants'', JNum (Finite 4)),
                    (''appliances_used'', JNum (Finite 20))];
       call = \<lparr>fetch_url = ''http://localhost:5000/predict'', fetch_method = ''POST'',
                fetch_body = Some body\<rparr>;
       bare = JObj [(''energy_consumption'', JNum (Finite 400)), (''unit'', JStr ''kWh'')];
       partial = JObj [(''unit'', JNull),
                       (''factors'', JObj [(''square_footage'', JNum (Finite (25 / 2))),
                                           (''appliances_used'', JNull)])]
   in snd (POST None (answering 200 bare) (Some body)) = [call]
      \<and> answering 200 bare call = Response 200 (Some bare)
      \<and> bare \<noteq> JNull
      \<and> fst (POST None (answering 200 bare) (Some body)) =
          \<lparr>status_code = 200,
           json_body = JObj [(''energy_consumption'', JNum (Finite 400)),
                             (''unit'', JStr ''kWh''),
                             (''factors'',
                              JObj [(''building_type'', JNum (Finite 0)),
                                    (''square_footage'', JNum (Finite 0)),
                                    (''number_of_occupants'', JNum (Finite 0)),
                                    (''appliances_used'', JNum (Finite 0))])]\<rparr>
      \<and> fst (POST None (answering 201 partial) (Some body)) =
          \<lparr>status_code = 200,
           json_body = JObj [(''energy_consumption'', JNum (Finite 0)),
                             (''unit'', JStr ''kWh''),
                             (''factors'',
                              JObj [(''building_type'', JNum (Finite 0)),
                                    (''square_footage'', JNum (Finite (25 / 2))),
                                    (''number_of_occupants'', JNum (Finite 0)),
                                    (''appliances_used'', JNum (Finite 0))])]\<rparr>"
  (is "Let ?body _")
proof -
  let ?call = "\<lparr>fetch_url = ''http://localhost:5000/predict'', fetch_method = ''POST'',
                 fetch_body = Some ?body\<rparr>"
  let ?bare = "JObj [(''energy_consumption'', JNum (Finite 400)), (''unit'', JStr ''kWh'')]"
  let ?partial = "JObj [(''unit'', JNull),
                        (''factors'', JObj [(''square_footage'', JNum (Finite (25 / 2))),
                                            (''appliances_used'', JNull)])]"
  have c: "snd (POST None (answering st d) (Some ?body)) = [?call]" for st d
    using POST_validated [of ?body "JStr ''Residential''" "JNum (Finite 250)"
        "JNum (Finite 4)" "JNum (Finite 20)" None "answering st d"]
    by (simp add: PREDICT_ENDPOINT_def or_string_def)
  have r: "answering st d ?call = Response st (Some d)" for st d
    by (simp add: answering_def)
  from POST_normalizes_backend_response [OF c r, of 200 ?bare]
  have 1: "fst (POST None (answering 200 ?bare) (Some ?body)) =
          \<lparr>status_code = 200,
           json_body = JObj [(''energy_consumption'', JNum (Finite 400)),
                             (''unit'', JStr ''kWh''),
                             (''factors'',
                              JObj [(''building_type'', JNum (Finite 0)),
                                    (''square_footage'', JNum (Finite 0)),
                                    (''number_of_occupants'', JNum (Finite 0)),
                                    (''appliances_used'', JNum (Finite 0))])]\<rparr>"
    by auto
  from POST_normalizes_backend_response [OF c r, of 201 ?partial]
  have 2: "fst (POST None (answering 201 ?partial) (Some ?body)) =
          \<lparr>status_code = 200,
           json_body = JObj [(''energy_consumption'', JNum (Finite 0)),
                             (''unit'', JStr ''kWh''),
                             (''factors'',
                              JObj [(''building_type'', JNum (Finite 0)),
                                    (''square_footage'', JNum (Finite (25 / 2))),
                                    (''number_of_occupants'', JNum (Finite 0)),
                                    (''appliances_used'', JNum (Finite 0))])]\<rparr>"
    by auto
  from c [of 200 ?bare] r [of 200 ?bare] 1 2 show ?thesis
    unfolding Let_def by simp
qed

section \<open>Properties of the dataset proxy\<close>

lemma GET_calls:
  "snd (GET env fetch q) =
     [\<lparr>fetch_url = DATASET_ENDPOINT env q, fetch_method = ''GET'', fetch_body = None\<rparr>]"
  by (simp add: GET_def GET_try_def Let_def split: fetch_result.split option.split)

text \<open>
  C8, as stated, fails for a page parameter that is present and malformed: \<open>abc\<close> is no
  integer string, and it is sent to the backend as it is, not replaced by \<open>1\<close>.
\<close>

theorem GET_forwards_malformed_page:
  "\<not> is_integer_string ''abc''
   \<and> map fetch_url (snd (GET None unreachable [(''page'', ''abc'')])) =
       [''http://127.0.0.1:8000/dataset?page=abc&limit=50'']"
  by (simp add: GET_calls DATASET_ENDPOINT_def or_string_def is_integer_string_def
        is_digit_def)

text \<open>
  C8, amended: for every request to the dataset proxy, the page and limit parameters
  sent to the backend are "1" and "50" whenever the parameter is absent or empty; any
  other value, a valid integer string or not, is sent as it is.
\<close>

theorem GET_defaults_page_and_limit:
  "\<exists>p l. map fetch_url (snd (GET env fetch q)) =
            [or_string env ''http://127.0.0.1:8000'' @ ''/dataset?page='' @ p
               @ ''&limit='' @ l]
     \<and> (map_of q ''page'' = None \<or> map_of q ''page'' = Some [] \<longrightarrow> p = ''1'')
     \<and> (\<forall>v. map_of q ''page'' = Some v \<and> v \<noteq> [] \<longrightarrow> p = v)
     \<and> (map_of q ''limit'' = None \<or> map_of q ''limit'' = Some [] \<longrightarrow> l = ''50'')
     \<and> (\<forall>v. map_of q ''limit'' = Some v \<and> v \<noteq> [] \<longrightarrow> l = v)"
proof (intro exI conjI)
  show "map fetch_url (snd (GET env fetch q)) =
          [or_string env ''http://127.0.0.1:8000'' @ ''/dataset?page=''
             @ or_string (map_of q ''page'') ''1'' @ ''&limit=''
             @ or_string (map_of q ''limit'') ''50'']"
    by (simp add: GET_calls DATASET_ENDPOINT_def)
qed (auto simp add: or_string_def)

theorem GET_defaults_page_and_limit_witness:
  "map fetch_url (snd (GET None unreachable [(''limit'', ''''), (''page'', ''3'')])) =
     [''http://127.0.0.1:8000/dataset?page=3&limit=50'']"
  using GET_defaults_page_and_limit [of None unreachable "[(''limit'', ''''), (''page'', ''3'')]"]
  by (auto simp add: or_string_def)

section \<open>Properties of the number texts\<close>

lemma digit_char_digit:
  assumes "d < 10"
  shows "is_digit (digit_char d)" and "digit_value (digit_char d) = d"
proof -
  from assms have "d \<in> {0, 1, 2, 3, 4, 5, 6, 7, 8, 9}" by auto
  then show "is_digit (digit_char d)" and "digit_value (digit_char d) = d"
    by (auto simp add: digit_char_def is_digit_def digit_value_def)
qed

lemma digits_below_ten: "n < 10 \<Longrightarrow> digits n = [digit_char n]"
  by (subst digits.simps) simp

lemma digits_from_ten:
  "10 \<le> n \<Longrightarrow> digits n = digits (n div 10) @ [digit_char (n mod 10)]"
  by (subst digits.simps) simp

lemma digits_value_snoc: "digits_value (t @ [c]) = 10 * digits_value t + digit_value c"
  by (simp add: digits_value_def)

lemma digits_value_digits: "digits_value (digits n) = n"
proof (induction n rule: digits.induct)
  case (1 n)
  show ?case
  proof (cases "n < 10")
    case True
    then show ?thesis
      by (subst digits.simps) (simp add: digits_value_def digit_char_digit)
  next
    case False
    with 1 have "digits_value (digits (n div 10)) = n div 10" by simp
    with False show ?thesis
      by (subst digits.simps) (simp add: digits_value_snoc digit_char_digit)
  qed
qed

lemma digits_all_digits: "list_all is_digit (digits n)"
proof (induction n rule: digits.induct)
  case (1 n)
  show ?case
  proof (cases "n < 10")
    case True
    then show ?thesis by (subst digits.simps) (simp add: digit_char_digit)
  next
    case False
    with 1 have "list_all is_digit (digits (n div 10))" by simp
    with False show ?thesis by (subst digits.simps) (simp add: digit_char_digit)
  qed
qed

lemma digits_not_empty: "digits n \<noteq> []"
  by (subst digits.simps) simp

lemma digits_value_zeros: "digits_value (replicate j (CHR ''0'') @ t) = digits_value t"
  by (induction j) (simp_all add: digits_value_def digit_value_def)

lemma digits_value_append:
  "digits_value (a @ b) = digits_value a * 10 ^ length b + digits_value b"
proof (induction b rule: rev_induct)
  case Nil
  show ?case by (simp add: digits_value_def)
next
  case (snoc c b)
  have "digits_value (a @ b @ [c]) = 10 * digits_value (a @ b) + digit_value c"
    using digits_value_snoc [of "a @ b" c] by simp
  with snoc show ?case by (simp add: digits_value_snoc algebra_simps)
qed

lemma zero_is_digit: "is_digit (CHR ''0'')" and minus_no_digit: "\<not> is_digit (CHR ''-'')"
  by (simp_all add: is_digit_def)

text \<open>The padded digit string of toFixed with two fraction digits.\<close>

lemma split_two_decimals:
  assumes "3 \<le> length m" and "list_all is_digit m"
  shows "unsigned_two_decimal_value (take (length m - 2) m @ ''.'' @ drop (length m - 2) m)
           = Some (of_nat (digits_value m) / 100)"
proof -
  let ?a = "take (length m - 2) m" and ?b = "drop (length m - 2) m"
  let ?t = "?a @ ''.'' @ ?b"
  from assms(1) have la: "length ?a = length m - 2" and lb: "length ?b = 2" by auto
  from assms(1) have lt: "length ?t = length m + 1" by auto
  from assms(1) have k3: "length ?t - 3 = length ?a" and k2: "length ?t - 2 = length ?a + 1"
    by auto
  have dot: "?t ! (length ?t - 3) = CHR ''.''"
    unfolding k3 by (simp only: nth_append_length append_Cons append_Nil)
  have ta: "take (length ?t - 3) ?t = ?a" unfolding k3 by simp
  have tb: "drop (length ?t - 2) ?t = ?b" unfolding k2 by simp
  from assms(2) have da: "list_all is_digit ?a" and db: "list_all is_digit ?b"
    by (auto simp add: list_all_iff dest: in_set_takeD in_set_dropD)
  have "digits_value m = digits_value (?a @ ?b)" by simp
  also have "\<dots> = digits_value ?a * 10 ^ length ?b + digits_value ?b"
    by (rule digits_value_append)
  finally have v: "digits_value m = digits_value ?a * 100 + digits_value ?b"
    unfolding lb by simp
  have "4 \<le> length ?t" using assms(1) lt by simp
  then have "unsigned_two_decimal_value ?t =
      Some (of_nat (digits_value ?a) + of_nat (digits_value ?b) / 100)"
    unfolding unsigned_two_decimal_value_def Let_def
    using dot da db by (simp only: ta tb if_True simp_thms)
  also have "of_nat (digits_value ?a) + of_nat (digits_value ?b) / 100
               = (of_nat (digits_value m) :: rat) / 100"
    unfolding v by simp
  finally show ?thesis .
qed

lemma digits_unless_zero: "(if n = 0 then ''0'' else digits n) = digits n"
  by (simp add: digits.simps [of 0] digit_char_def)

lemma toFixed_two:
  assumes "\<bar>x0\<bar> < 10 ^ 21"
  shows "\<exists>m. 3 \<le> length m \<and> list_all is_digit m
           \<and> digits_value m = nat \<lfloor>\<bar>x0\<bar> * 100 + 1 / 2\<rfloor>
           \<and> toFixed x0 2 =
               Fixed ((if x0 < 0 then ''-'' else []) @ take (length m - 2) m @ ''.''
                        @ drop (length m - 2) m)"
proof -
  let ?n = "nat \<lfloor>\<bar>x0\<bar> * 100 + 1 / 2\<rfloor>"
  let ?d = "digits ?n"
  have x: "(if x0 < 0 then - x0 else x0) = \<bar>x0\<bar>" by simp
  from assms have small: "\<not> 10 ^ 21 \<le> \<bar>x0\<bar>" by simp
  have pos: "0 < length ?d" using digits_not_empty [of ?n] by simp
  show ?thesis
  proof (cases "length ?d \<le> 2")
    case True
    let ?m = "replicate (3 - length ?d) (CHR ''0'') @ ?d"
    from True pos have len: "length ?m = 3" by simp
    have dig: "list_all is_digit ?m"
      using digits_all_digits [of ?n] by (auto simp add: zero_is_digit list_all_iff)
    have val: "digits_value ?m = ?n"
      by (simp only: digits_value_zeros digits_value_digits)
    have "toFixed x0 2 =
            Fixed ((if x0 < 0 then ''-'' else []) @ take (3 - 2) ?m @ ''.'' @ drop (3 - 2) ?m)"
      unfolding toFixed_def Let_def x digits_unless_zero using small True
      by (simp add: numeral_3_eq_3)
    then have "toFixed x0 2 =
            Fixed ((if x0 < 0 then ''-'' else []) @ take (length ?m - 2) ?m @ ''.''
                     @ drop (length ?m - 2) ?m)"
      by (simp only: len)
    moreover from len have "3 \<le> length ?m" by (simp only:)
    ultimately show ?thesis using dig val by blast
  next
    case False
    then have len: "3 \<le> length ?d" by simp
    have "toFixed x0 2 =
            Fixed ((if x0 < 0 then ''-'' else []) @ take (length ?d - 2) ?d @ ''.''
                     @ drop (length ?d - 2) ?d)"
      unfolding toFixed_def Let_def x digits_unless_zero using small False
      by simp
    with len digits_all_digits [of ?n] digits_value_digits [of ?n] show ?thesis by blast
  qed
qed

lemma nearest_hundredth:
  fixes y :: rat
  assumes "0 \<le> y"
  shows "\<bar>of_nat (nat \<lfloor>y * 100 + 1 / 2\<rfloor>) / 100 - y\<bar> \<le> 1 / 200"
proof -
  define q :: rat where "q = of_int \<lfloor>y * 100 + 1 / 2\<rfloor>"
  from assms have "0 \<le> \<lfloor>y * 100 + 1 / 2\<rfloor>" by simp
  then have n: "(of_nat (nat \<lfloor>y * 100 + 1 / 2\<rfloor>) :: rat) = q" by (simp add: q_def)
  have "q \<le> y * 100 + 1 / 2" unfolding q_def by (rule of_int_floor_le)
  moreover have "y * 100 + 1 / 2 < q + 1" unfolding q_def by linarith
  ultimately have "q / 100 - y \<le> 1 / 200" and "y - q / 100 \<le> 1 / 200" by linarith+
  then show ?thesis unfolding n by linarith
qed

lemma two_decimal_value_toFixed:
  assumes "\<bar>x0\<bar> < 10 ^ 21"
  shows "\<exists>t. toFixed x0 2 = Fixed t
           \<and> two_decimal_value t =
               Some ((if x0 < 0 then - 1 else 1) * of_int \<lfloor>\<bar>x0\<bar> * 100 + 1 / 2\<rfloor> / 100)"
proof -
  from toFixed_two [OF assms] obtain m where m: "3 \<le> length m" "list_all is_digit m"
    "digits_value m = nat \<lfloor>\<bar>x0\<bar> * 100 + 1 / 2\<rfloor>"
    and t: "toFixed x0 2 =
               Fixed ((if x0 < 0 then ''-'' else []) @ take (length m - 2) m @ ''.''
                        @ drop (length m - 2) m)"
    by blast
  let ?u = "take (length m - 2) m @ ''.'' @ drop (length m - 2) m"
  have "0 \<le> \<lfloor>\<bar>x0\<bar> * 100 + 1 / 2\<rfloor>" by simp
  then have n: "(of_nat (nat \<lfloor>\<bar>x0\<bar> * 100 + 1 / 2\<rfloor>) :: rat) = of_int \<lfloor>\<bar>x0\<bar> * 100 + 1 / 2\<rfloor>"
    by simp
  have u: "unsigned_two_decimal_value ?u = Some (of_int \<lfloor>\<bar>x0\<bar> * 100 + 1 / 2\<rfloor> / 100)"
    using split_two_decimals [OF m(1,2)] unfolding m(3) n .
  from m(1) obtain c r where cr: "m = c # r" by (cases m) auto
  with m(2) have "is_digit c" by simp
  then have c: "c \<noteq> CHR ''-''" using minus_no_digit by auto
  from m(1) obtain j where j: "length m - 2 = Suc j" by (cases "length m - 2") auto
  have "?u = c # (take j r @ ''.'' @ drop (length m - 2) m)"
    unfolding j unfolding cr by simp
  then obtain w where "?u = c # w" by blast
  then have pos: "two_decimal_value ?u = unsigned_two_decimal_value ?u"
    using c by (simp add: two_decimal_value_def)
  have neg: "two_decimal_value (''-'' @ ?u) = map_option uminus (unsigned_two_decimal_value ?u)"
    by (simp add: two_decimal_value_def)
  show ?thesis
  proof (cases "x0 < 0")
    case True
    with t neg u show ?thesis by simp
  next
    case False
    with t pos u show ?thesis by simp
  qed
qed

section \<open>Properties of the predictor view\<close>

text \<open>
  C1, amended: for every prediction result the predictor view renders whose
  energy_consumption / 4 is below 10^21 in absolute value, both result panels show
  energy_consumption divided by 4 rounded to two decimal places (the nearest hundredth,
  a tie going away from zero), in fixed notation, followed by the unit or 'kWh'; for
  energy_consumption 400 and unit "kWh" that is 100.00 kWh.
\<close>

theorem Home_shows_quarter_to_two_decimals:
  assumes "result s = Some r"
    and "\<bar>PredictionResult.energy_consumption r / 4\<bar> < 10 ^ 21"
  shows "\<exists>t v. result_box (Home s) = Some (Fixed t, or_string (PredictionResult.unit r) ''kWh'')
           \<and> result_card (Home s) = Some (Fixed t, or_string (PredictionResult.unit r) ''kWh'')
           \<and> two_decimal_value t = Some v
           \<and> \<bar>v - PredictionResult.energy_consumption r / 4\<bar> \<le> 1 / 200
           \<and> v = (if PredictionResult.energy_consumption r < 0 then - 1 else 1)
                   * of_int \<lfloor>\<bar>PredictionResult.energy_consumption r / 4\<bar> * 100 + 1 / 2\<rfloor> / 100"
proof -
  let ?x = "PredictionResult.energy_consumption r / 4"
  from two_decimal_value_toFixed [OF assms(2)] obtain t where t: "toFixed ?x 2 = Fixed t"
    and v: "two_decimal_value t =
              Some ((if ?x < 0 then - 1 else 1) * of_int \<lfloor>\<bar>?x\<bar> * 100 + 1 / 2\<rfloor> / 100)"
    by blast
  let ?v = "(if ?x < 0 then - 1 else 1) * of_int \<lfloor>\<bar>?x\<bar> * 100 + 1 / 2\<rfloor> / 100"
  have "0 \<le> \<lfloor>\<bar>?x\<bar> * 100 + 1 / 2\<rfloor>" by simp
  then have n: "(of_nat (nat \<lfloor>\<bar>?x\<bar> * 100 + 1 / 2\<rfloor>) :: rat) = of_int \<lfloor>\<bar>?x\<bar> * 100 + 1 / 2\<rfloor>"
    by simp
  have near: "\<bar>of_int \<lfloor>\<bar>?x\<bar> * 100 + 1 / 2\<rfloor> / 100 - \<bar>?x\<bar>\<bar> \<le> 1 / 200"
    using nearest_hundredth [of "\<bar>?x\<bar>"] unfolding n by simp
  have close: "\<bar>?v - ?x\<bar> \<le> 1 / 200"
  proof (cases "?x < 0")
    case True
    then have "?v - ?x = - (of_int \<lfloor>\<bar>?x\<bar> * 100 + 1 / 2\<rfloor> / 100 - \<bar>?x\<bar>)" by simp
    then show ?thesis using near by (simp only: abs_minus_cancel)
  next
    case False
    then have "?v - ?x = of_int \<lfloor>\<bar>?x\<bar> * 100 + 1 / 2\<rfloor> / 100 - \<bar>?x\<bar>" by simp
    then show ?thesis using near by simp
  qed
  have sg: "(?x < 0) = (PredictionResult.energy_consumption r < 0)" by simp
  have "result_box (Home s) = Some (Fixed t, or_string (PredictionResult.unit r) ''kWh'')"
    and "result_card (Home s) = Some (Fixed t, or_string (PredictionResult.unit r) ''kWh'')"
    using assms(1) t by (simp_all add: Home_def monthly_def)
  with v close show ?thesis unfolding sg by blast
qed

lemma toFixed_100: "toFixed 100 2 = Fixed ''100.00''"
proof -
  have f: "\<lfloor>(20001::rat) / 2\<rfloor> = 10000" by (simp add: floor_eq_iff)
  have d: "digits 10000 = ''10000''"
    by (simp add: digits_below_ten digits_from_ten digit_char_def)
  show ?thesis by (simp add: toFixed_def Let_def f d)
qed

theorem Home_shows_quarter_to_two_decimals_witness:
  "\<bar>(400::rat) / 4\<bar> < 10 ^ 21
   \<and> Home \<lparr>result = Some \<lparr>PredictionResult.energy_consumption = 400,
                             PredictionResult.unit = Some ''kWh'',
                             PredictionResult.factors = None\<rparr>,
            Home_state.loading = False, Home_state.error = None\<rparr> =
       \<lparr>error_message = None, result_box = Some (Fixed ''100.00'', ''kWh''),
        result_card = Some (Fixed ''100.00'', ''kWh''), placeholder = False\<rparr>
   \<and> two_decimal_value ''100.00'' = Some 100"
proof -
  let ?r = "\<lparr>PredictionResult.energy_consumption = 400,
             PredictionResult.unit = Some ''kWh'', PredictionResult.factors = None\<rparr>"
  let ?s = "\<lparr>result = Some ?r, Home_state.loading = False, Home_state.error = None\<rparr>"
  have b: "\<bar>PredictionResult.energy_consumption ?r / 4\<bar> < 10 ^ 21" by simp
  have r: "result ?s = Some ?r" by simp
  from Home_shows_quarter_to_two_decimals [OF r b]
  obtain t v where rb: "result_box (Home ?s) =
        Some (Fixed t, or_string (PredictionResult.unit ?r) ''kWh'')"
    and tv: "two_decimal_value t = Some v"
    and v: "v = (if PredictionResult.energy_consumption ?r < 0 then - 1 else 1)
              * of_int \<lfloor>\<bar>PredictionResult.energy_consumption ?r / 4\<bar> * 100 + 1 / 2\<rfloor> / 100"
    by blast
  have e: "Home ?s =
       \<lparr>error_message = None, result_box = Some (Fixed ''100.00'', ''kWh''),
        result_card = Some (Fixed ''100.00'', ''kWh''), placeholder = False\<rparr>"
    by (simp add: Home_def monthly_def toFixed_100 or_string_def)
  from rb e have t: "t = ''100.00''" by simp
  have f: "\<lfloor>(20001::rat) / 2\<rfloor> = 10000" by (simp add: floor_eq_iff)
  from v have "v = 100" by (simp add: f)
  with tv t have "two_decimal_value ''100.00'' = Some 100" by simp
  with e show ?thesis by simp
qed

text \<open>
  C1, as stated, fails for a result with energy_consumption 4 * 10^21: the quarter is
  10^21, and from there on toFixed gives the text of Number::toString (here 1e+21), not
  a figure with two decimal places.
\<close>

theorem Home_shows_exponent_text_from_1e21:
  "Home \<lparr>result = Some \<lparr>PredictionResult.energy_consumption = 4 * 10 ^ 21,
                           PredictionResult.unit = Some ''kWh'',
                           PredictionResult.factors = None\<rparr>,
          Home_state.loading = False, Home_state.error = None\<rparr> =
     \<lparr>error_message = None, result_box = Some (Number_toString (10 ^ 21), ''kWh''),
      result_card = Some (Number_toString (10 ^ 21), ''kWh''), placeholder = False\<rparr>"
  by (simp add: Home_def monthly_def toFixed_def or_string_def)

section \<open>Properties of the chart geometry\<close>

lemma LineGraph_None_iff: "LineGraph s = None \<longleftrightarrow> getFilteredData s = []"
  by (cases "getFilteredData s") (simp_all add: LineGraph_def Let_def)

lemma fold_max_Max: "fold max vs (v::rat) = Max (set (v # vs))"
  by (simp only: Max.set_eq_fold)

lemma fold_min_Min: "fold min vs (v::rat) = Min (set (v # vs))"
  by (simp only: Min.set_eq_fold)

text \<open>With its fallback a divisor is not zero, and the quotient is a finite number.\<close>

lemma or_number_not_zero: "b \<noteq> 0 \<Longrightarrow> or_number a b \<noteq> 0"
  by (simp add: or_number_def)

lemma js_sub_finite: "js_sub (Finite a) (Finite b) = Finite (a - b)"
  by (simp add: js_sub_def)

lemma LineGraph_Some:
  assumes "getFilteredData s \<noteq> []"
  shows "LineGraph s =
     Some \<lparr>count = length (getFilteredData s),
           gridlines =
             map (\<lambda>i. (40 + (400 / 4) * of_nat i,
                        Max (set (metric_values s))
                          - (or_number (Max (set (metric_values s))
                                          - Min (set (metric_values s))) 1 / 4) * of_nat i))
                 [0, 1, 2, 3, 4::nat],
           points =
             map (\<lambda>(i, row).
                    \<lparr>point_x = Finite (80 + of_nat i
                                  / or_number (of_nat (length (getFilteredData s)) - 1) 1 * 860),
                     point_y = Finite (440
                                  - (metric_value row (selectedMetric s)
                                       - Min (set (metric_values s)))
                                    / or_number (Max (set (metric_values s))
                                                   - Min (set (metric_values s))) 1 * 400),
                     point_value = metric_value row (selectedMetric s),
                     point_buildingType = DataRow.building_type row\<rparr>)
                 (enumerate 0 (getFilteredData s))\<rparr>"
proof -
  from assms obtain r rs where e: "getFilteredData s = r # rs"
    by (cases "getFilteredData s") auto
  show ?thesis
    unfolding LineGraph_def metric_values_def e Let_def
    by (simp add: fold_max_Max fold_min_Min js_sub_finite or_number_not_zero
          del: Max.set_eq_fold Min.set_eq_fold)
qed

lemma constant_values:
  assumes "xs \<noteq> []" and "Max (set xs) = Min (set (xs::rat list))" and "x \<in> set xs"
  shows "x = Min (set xs)"
proof -
  have "Min (set xs) \<le> x" using assms(3) by (intro Min_le) simp_all
  moreover have "x \<le> Max (set xs)" using assms(3) by (intro Max_ge) simp_all
  ultimately show ?thesis using assms(2) by simp
qed





text \<open>
  C3, amended: for every non-empty filtered row set whose selected metric is constant
  (min = max), the range fallback of 1 is applied (the grid labels step down by 1/4 from
  the maximum) and every data point's y coordinate is top + chartHeight = 440, the
  bottom edge of the chart where the x-axis is drawn.
\<close>

theorem LineGraph_constant_metric_on_baseline:
  assumes "getFilteredData s \<noteq> []"
    and "Max (set (metric_values s)) = Min (set (metric_values s))"
  shows "\<exists>c. LineGraph s = Some c
           \<and> map snd (gridlines c) =
               map (\<lambda>i. Max (set (metric_values s)) - (1 / 4) * of_nat i) [0, 1, 2, 3, 4::nat]
           \<and> (\<forall>p \<in> set (points c). point_y p = Finite (40 + (500 - 40 - 60)))"
proof -
  have v: "metric_value row (selectedMetric s) = Min (set (metric_values s))"
    if "row \<in> set (getFilteredData s)" for row
  proof -
    from that have mem: "metric_value row (selectedMetric s) \<in> set (metric_values s)"
      by (simp add: metric_values_def)
    from assms(1) have ne: "metric_values s \<noteq> []" by (simp add: metric_values_def)
    show ?thesis by (rule constant_values [OF ne assms(2) mem])
  qed
  have r: "or_number (Max (set (metric_values s)) - Min (set (metric_values s))) 1 = 1"
    using assms(2) by (simp add: or_number_def)
  have "(i, row) \<in> set (enumerate 0 (getFilteredData s)) \<Longrightarrow> row \<in> set (getFilteredData s)"
    for i row
    by (auto simp add: in_set_enumerate_eq)
  then have y: "\<forall>p \<in> set (points c). point_y p = Finite (40 + (500 - 40 - 60))"
    if "LineGraph s = Some c" for c
    using that unfolding LineGraph_Some [OF assms(1)] r
    by (auto simp add: v)
  have g: "map snd (gridlines c) =
               map (\<lambda>i. Max (set (metric_values s)) - (1 / 4) * of_nat i) [0, 1, 2, 3, 4::nat]"
    if "LineGraph s = Some c" for c
    using that unfolding LineGraph_Some [OF assms(1)] r
    by auto
  from assms(1) obtain c where c: "LineGraph s = Some c"
    by (cases "LineGraph s") (auto simp add: LineGraph_None_iff)
  from c y [OF c] g [OF c] show ?thesis by blast
qed

text \<open>
  C3, as stated, fails: two rows with energy consumption 10 and 10 are a constant series,
  and both points get y = 440, while the vertical centre of the chart is
  top + chartHeight / 2 = 240.
\<close>

theorem LineGraph_constant_metric_not_centred:
  "LineGraph
     \<lparr>dataset =
        [\<lparr>building_type = ''Residential'', square_footage = 250, number_of_occupants = 4,
          appliances_used = 20, energy_consumption = 10\<rparr>,
         \<lparr>building_type = ''Commercial'', square_footage = 900, number_of_occupants = 12,
          appliances_used = 35, energy_consumption = 10\<rparr>],
      loading = False, error = None, page = 1, totalPages = 5, limit = 100,
      selectedMetric = Energy_consumption, filterType = ''all''\<rparr> =
     Some \<lparr>count = 2,
           gridlines = [(40, 10), (140, 39 / 4), (240, 19 / 2), (340, 37 / 4), (440, 9)],
           points = [\<lparr>point_x = Finite 80, point_y = Finite 440, point_value = 10,
                      point_buildingType = ''Residential''\<rparr>,
                     \<lparr>point_x = Finite 940, point_y = Finite 440, point_value = 10,
                      point_buildingType = ''Commercial''\<rparr>]\<rparr>
   \<and> (440::rat) \<noteq> 40 + (500 - 40 - 60) / 2"
  by (simp add: LineGraph_def getFilteredData_def or_number_def enumerate_eq_zip Let_def
        js_sub_finite)

theorem LineGraph_constant_metric_on_baseline_witness:
  "let s = \<lparr>dataset =
              [\<lparr>building_type = ''Residential'', square_footage = 250,
                number_of_occupants = 4, appliances_used = 20, energy_consumption = 310\<rparr>,
               \<lparr>building_type = ''Industrial'', square_footage = 5000,
                number_of_occupants = 40, appliances_used = 90, energy_consumption = 2750\<rparr>,
               \<lparr>building_type = ''Residential'', square_footage = 480,
                number_of_occupants = 4, appliances_used = 31, energy_consumption = 420\<rparr>],
            loading = False, error = None, page = 1, totalPages = 5, limit = 100,
            selectedMetric = Number_of_occupants, filterType = ''Residential''\<rparr>
   in getFilteredData s \<noteq> []
      \<and> Max (set (metric_values s)) = Min (set (metric_values s))
      \<and> map_option (map point_y \<circ> points) (LineGraph s) = Some [Finite 440, Finite 440]"
  (is "Let ?s _")
proof -
  have h: "getFilteredData ?s \<noteq> []" by (simp add: getFilteredData_def)
  have m: "Max (set (metric_values ?s)) = Min (set (metric_values ?s))"
    by (simp add: metric_values_def getFilteredData_def)
  from LineGraph_constant_metric_on_baseline [OF h m]
  obtain c where c: "LineGraph ?s = Some c"
    and y: "\<forall>p \<in> set (points c). point_y p = Finite (40 + (500 - 40 - 60))" by blast
  have "length (points c) = 2"
    using c by (auto simp add: LineGraph_def getFilteredData_def Let_def)
  then obtain p q where "points c = [p, q]"
    by (cases "points c"; cases "tl (points c)") auto
  with y have "map point_y (points c) = [Finite 440, Finite 440]" by simp
  with c have "map_option (map point_y \<circ> points) (LineGraph ?s) =
      Some [Finite 440, Finite 440]" by simp
  with h m show ?thesis unfolding Let_def by (intro conjI)
qed

section \<open>Properties of the dataset page\<close>

text \<open>
  C10: when the fetched page is not empty but the building-type filter matches none of
  its rows, LineGraph returns null and the graph area shows nothing; the "No data
  available" placeholder is shown exactly when loading is over and the fetched dataset
  itself is empty.
\<close>

theorem filtered_out_page_renders_nothing:
  "(\<not> DatasetPage_state.loading s \<and> dataset s \<noteq> [] \<and> getFilteredData s = []
      \<longrightarrow> LineGraph s = None \<and> graph s = Graph None)
   \<and> (graph s = No_data_available \<longleftrightarrow> \<not> DatasetPage_state.loading s \<and> dataset s = [])"
proof (intro conjI impI)
  assume a: "\<not> DatasetPage_state.loading s \<and> dataset s \<noteq> [] \<and> getFilteredData s = []"
  then show "LineGraph s = None" by (simp add: LineGraph_None_iff)
  with a show "graph s = Graph None" by (simp add: graph_def)
next
  show "graph s = No_data_available \<longleftrightarrow> \<not> DatasetPage_state.loading s \<and> dataset s = []"
    by (cases "DatasetPage_state.loading s"; cases "dataset s") (simp_all add: graph_def)
qed

theorem filtered_out_page_renders_nothing_witness:
  "let s = \<lparr>dataset =
              [\<lparr>building_type = ''Residential'', square_footage = 250,
                number_of_occupants = 4, appliances_used = 20, energy_consumption = 310\<rparr>,
               \<lparr>building_type = ''Commercial'', square_footage = 900,
                number_of_occupants = 12, appliances_used = 35, energy_consumption = 820\<rparr>],
            loading = False, error = None, page = 1, totalPages = 5, limit = 100,
            selectedMetric = Energy_consumption, filterType = ''Industrial''\<rparr>
   in \<not> DatasetPage_state.loading s \<and> dataset s \<noteq> [] \<and> getFilteredData s = []
      \<and> graph s = Graph None"
  (is "Let ?s _")
  using filtered_out_page_renders_nothing [of ?s]
  by (simp add: Let_def getFilteredData_def)

text \<open>
  C5: every change of the limit value also sets page to 1: no state change alters the
  limit without leaving page at 1, and the request sent after the limit control is set
  to n asks for page 1 with limit n, whatever page was selected before.
\<close>

theorem limit_change_resets_page:
  "(limit (handle ev s) \<noteq> limit s \<longrightarrow> page (handle ev s) = 1)
   \<and> page (fst (dispatch (Limit_changed n) s)) = 1
   \<and> limit (fst (dispatch (Limit_changed n) s)) = n
   \<and> (n \<noteq> limit s \<longrightarrow>
        snd (dispatch (Limit_changed n) s) = [''/api/dataset?page=1&limit='' @ show_int n])
   \<and> (\<forall>u \<in> set (snd (dispatch (Limit_changed n) s)).
        u = ''/api/dataset?page=1&limit='' @ show_int n)"
proof -
  have one: "digits (Suc 0) = ''1''"
    by (subst digits.simps) (simp add: show_int_def digit_char_def)
  have "limit (handle ev s) \<noteq> limit s \<longrightarrow> page (handle ev s) = 1"
    by (cases ev) auto
  then show ?thesis
    by (simp add: dispatch_def useEffect_def fetchDataset_url_def show_int_def one)
qed

theorem limit_change_resets_page_witness:
  "let s = \<lparr>dataset =
              [\<lparr>building_type = ''Residential'', square_footage = 250,
                number_of_occupants = 4, appliances_used = 20, energy_consumption = 310\<rparr>],
            loading = False, error = None, page = 3, totalPages = 5, limit = 100,
            selectedMetric = Energy_consumption, filterType = ''all''\<rparr>
   in page s = 3 \<and> limit s = 100
      \<and> page (fst (dispatch (Limit_changed 50) s)) = 1
      \<and> snd (dispatch (Limit_changed 50) s) = [''/api/dataset?page=1&limit=50'']"
  (is "Let ?s _")
proof -
  have d: "digits 50 = ''50''"
    by (simp add: digits_below_ten digits_from_ten digit_char_def)
  note t = limit_change_resets_page [of "Limit_changed 50" ?s 50]
  have p: "page (fst (dispatch (Limit_changed 50) ?s)) = 1"
    by (rule t [THEN conjunct2, THEN conjunct1])
  have "50 \<noteq> limit ?s \<longrightarrow>
          snd (dispatch (Limit_changed 50) ?s) = [''/api/dataset?page=1&limit='' @ show_int 50]"
    by (rule t [THEN conjunct2, THEN conjunct2, THEN conjunct2, THEN conjunct1])
  moreover have "50 \<noteq> limit ?s" by simp
  ultimately have "snd (dispatch (Limit_changed 50) ?s) =
      [''/api/dataset?page=1&limit='' @ show_int 50]" by (rule mp)
  also have "show_int 50 = ''50''" by (simp add: show_int_def d)
  finally have "snd (dispatch (Limit_changed 50) ?s) = [''/api/dataset?page=1&limit=50'']"
    by simp
  with p show ?thesis unfolding Let_def by simp
qed

end
